theory Spec2Isabelle
  imports Main "HOL-Library.Word"
begin

section \<open>The Windows/COM type shim of \<^verbatim>\<open>src/Arch/ArmNative/types.h\<close>\<close>

text \<open>
  The header has two branches. Under \<^verbatim>\<open>_WINDOWS\<close> it includes the platform's
  \<^verbatim>\<open>objbase.h\<close>; otherwise it declares the types itself. Everything below embeds the
  second branch: the declarations as the data they are, in the order of the header, and
  the one function of the header, \<^verbatim>\<open>operator ==\<close> on \<^verbatim>\<open>GUID\<close>. The macros are
  embedded for both branches.
\<close>

subsection \<open>The fundamental types and the targets\<close>

text \<open>
  The header names C++ fundamental types. Their widths are not written in the header:
  the target's data model fixes them. The data models of the 32-bit and 64-bit targets
  are the parameter of every width below: \<open>ILP32\<close> (32-bit ARM and x86), \<open>LP64\<close>
  (64-bit Linux, BSD and macOS) and \<open>LLP64\<close> (64-bit toolchains that keep \<^verbatim>\<open>long\<close> at
  32 bits).
\<close>

datatype data_model = ILP32 | LP64 | LLP64

datatype int_rank = CChar | CShort | CInt | CLong

datatype signedness = Signed | Unsigned

fun rank_bits :: "data_model \<Rightarrow> int_rank \<Rightarrow> nat" where
  "rank_bits m CChar = 8"
| "rank_bits m CShort = 16"
| "rank_bits m CInt = 32"
| "rank_bits LP64 CLong = 64"
| "rank_bits m CLong = 32"

fun pointer_bits :: "data_model \<Rightarrow> nat" where
  "pointer_bits ILP32 = 32"
| "pointer_bits m = 64"

text \<open>
  A type as the header writes it: \<^verbatim>\<open>unsigned long\<close> is \<open>TInt Unsigned CLong\<close>, plain
  \<^verbatim>\<open>char\<close> (a type of its own in C++) is \<open>TChar\<close>, \<^verbatim>\<open>wchar_t\<close> is \<open>TWchar\<close>, a name
  introduced by an earlier \<^verbatim>\<open>typedef\<close> is \<open>TName\<close>.
\<close>

datatype ctype =
    TInt signedness int_rank
  | TChar
  | TWchar
  | TVoid
  | TStruct string
  | TPtr ctype
  | TRef ctype
  | TArray ctype nat
  | TName string

subsection \<open>The typedefs of the non-Windows branch (lines 36 to 76)\<close>

definition typedefs :: "(string \<times> ctype) list" where
  "typedefs =
    [(''UINT'', TInt Unsigned CLong),
     (''INT'', TInt Signed CInt),
     (''BOOL'', TInt Signed CLong),
     (''BYTE'', TInt Unsigned CChar),
     (''LONG'', TInt Signed CLong),
     (''ULONG'', TInt Unsigned CLong),
     (''WORD'', TInt Unsigned CShort),
     (''DWORD'', TInt Unsigned CLong),
     (''VARTYPE'', TInt Unsigned CShort),
     (''USHORT'', TInt Unsigned CShort),
     (''LCID'', TName ''DWORD''),
     (''SCODE'', TName ''LONG''),
     (''SHORT'', TInt Signed CShort),
     (''WCHAR'', TWchar),
     (''TCHAR'', TName ''WCHAR''),
     (''OLECHAR'', TName ''WCHAR''),
     (''GUID'', TStruct ''_GUID''),
     (''IID'', TName ''GUID''),
     (''LPIID'', TPtr (TName ''IID'')),
     (''HWND'', TPtr TVoid),
     (''HMENU'', TPtr TVoid),
     (''HANDLE'', TPtr TVoid),
     (''REFGUID'', TRef (TName ''GUID'')),
     (''REFIID'', TRef (TName ''IID'')),
     (''HRESULT'', TInt Signed CInt),
     (''LPWSTR'', TPtr TChar)]"

text \<open>
  A typedef name denotes the type it was declared with, and a name inside that type is
  one declared before it. \<open>resolve\<close> takes the declarations latest first, so that the
  declarations left after a name is found are the ones before it; an undeclared name is
  \<open>None\<close>.
\<close>

fun resolve :: "(string \<times> ctype) list \<Rightarrow> ctype \<Rightarrow> ctype option" where
  "resolve ds (TName n) =
     (case ds of
        [] \<Rightarrow> None
      | (k, t) # earlier \<Rightarrow> if k = n then resolve earlier t else resolve earlier (TName n))"
| "resolve ds (TPtr t) = map_option TPtr (resolve ds t)"
| "resolve ds (TRef t) = map_option TRef (resolve ds t)"
| "resolve ds (TArray t n) = map_option (\<lambda>u. TArray u n) (resolve ds t)"
| "resolve ds t = Some t"

definition type_of :: "string \<Rightarrow> ctype option" where
  "type_of n = resolve (rev typedefs) (TName n)"

text \<open>The signedness and the width in bits of a typedef name that is an integer type.\<close>

definition int_type_of :: "data_model \<Rightarrow> string \<Rightarrow> (signedness \<times> nat) option" where
  "int_type_of m n =
     (case type_of n of
        Some (TInt s r) \<Rightarrow> Some (s, rank_bits m r)
      | _ \<Rightarrow> None)"

subsection \<open>The struct \<^verbatim>\<open>_GUID\<close> (lines 53 to 59) and its layout\<close>

definition GUID_fields :: "(string \<times> ctype) list" where
  "GUID_fields =
    [(''Data1'', TName ''DWORD''),
     (''Data2'', TName ''WORD''),
     (''Data3'', TName ''WORD''),
     (''Data4'', TArray (TName ''BYTE'') 8)]"

text \<open>
  Size and alignment in bytes of a member type. The header does not fix them either:
  by the ABI of each target above an integer and a pointer are aligned to their size,
  and an array is aligned as its element is.
\<close>

fun size_align :: "data_model \<Rightarrow> ctype \<Rightarrow> (nat \<times> nat) option" where
  "size_align m (TInt s r) = Some (rank_bits m r div 8, rank_bits m r div 8)"
| "size_align m TChar = Some (1, 1)"
| "size_align m (TPtr t) = Some (pointer_bits m div 8, pointer_bits m div 8)"
| "size_align m (TArray t n) =
     (case size_align m t of None \<Rightarrow> None | Some (s, a) \<Rightarrow> Some (n * s, a))"
| "size_align m t = None"

definition align_up :: "nat \<Rightarrow> nat \<Rightarrow> nat" where
  "align_up n a = ((n + a - 1) div a) * a"

text \<open>
  The members are placed in the order of their declaration, each at the next offset that
  is a multiple of its alignment. A member is given by its size and its alignment.
\<close>

fun offsets :: "nat \<Rightarrow> (nat \<times> nat) list \<Rightarrow> nat list" where
  "offsets off [] = []"
| "offsets off ((s, a) # ms) = align_up off a # offsets (align_up off a + s) ms"

fun end_offset :: "nat \<Rightarrow> (nat \<times> nat) list \<Rightarrow> nat" where
  "end_offset off [] = off"
| "end_offset off ((s, a) # ms) = end_offset (align_up off a + s) ms"

fun struct_align :: "(nat \<times> nat) list \<Rightarrow> nat" where
  "struct_align [] = 1"
| "struct_align ((s, a) # ms) = max a (struct_align ms)"

text \<open>The size and alignment of each member of \<^verbatim>\<open>_GUID\<close>, its type resolved first.\<close>

definition member_size_align :: "data_model \<Rightarrow> string \<times> ctype \<Rightarrow> (nat \<times> nat) option" where
  "member_size_align m d = Option.bind (resolve (rev typedefs) (snd d)) (size_align m)"

definition GUID_members :: "data_model \<Rightarrow> (nat \<times> nat) list option" where
  "GUID_members m = those (map (member_size_align m) GUID_fields)"

definition GUID_field_sizes :: "data_model \<Rightarrow> nat list option" where
  "GUID_field_sizes m = map_option (map fst) (GUID_members m)"

definition GUID_field_offsets :: "data_model \<Rightarrow> nat list option" where
  "GUID_field_offsets m = map_option (offsets 0) (GUID_members m)"

text \<open>\<^verbatim>\<open>sizeof(GUID)\<close>: the end of the last member, padded to the struct's alignment.\<close>

definition sizeof_GUID :: "data_model \<Rightarrow> nat option" where
  "sizeof_GUID m =
     map_option (\<lambda>ms. align_up (end_offset 0 ms) (struct_align ms)) (GUID_members m)"

subsection \<open>GUID values and \<^verbatim>\<open>operator ==\<close> (lines 61 to 63)\<close>

text \<open>
  A GUID value on a target whose \<^verbatim>\<open>long\<close> has 32 bits (\<open>ILP32\<close>, \<open>LLP64\<close>): \<open>Data1\<close>
  is a \<^verbatim>\<open>DWORD\<close> of 32 bits, \<open>Data2\<close> and \<open>Data3\<close> are \<^verbatim>\<open>WORD\<close>s of 16 bits, \<open>Data4\<close> is
  the array of 8 \<^verbatim>\<open>BYTE\<close>s, a list that \<open>GUID_wf\<close> holds to its length.
\<close>

type_synonym byte = "8 word"

record GUID =
  Data1 :: "32 word"
  Data2 :: "16 word"
  Data3 :: "16 word"
  Data4 :: "byte list"

definition GUID_wf :: "GUID \<Rightarrow> bool" where
  "GUID_wf g = (length (Data4 g) = 8)"

text \<open>
  The object representation \<^verbatim>\<open>memcmp\<close> reads through \<^verbatim>\<open>&a\<close>: the members at their
  offsets 0, 4, 6 and 8, the integers least significant byte first (a little-endian
  target), no padding between or after them.
\<close>

definition bytes16 :: "16 word \<Rightarrow> byte list" where
  "bytes16 w = [ucast w, ucast (drop_bit 8 w)]"

definition bytes32 :: "32 word \<Rightarrow> byte list" where
  "bytes32 w = [ucast w, ucast (drop_bit 8 w), ucast (drop_bit 16 w), ucast (drop_bit 24 w)]"

definition object_repr :: "GUID \<Rightarrow> byte list" where
  "object_repr g = bytes32 (Data1 g) @ bytes16 (Data2 g) @ bytes16 (Data3 g) @ Data4 g"

text \<open>
  The C library's \<^verbatim>\<open>memcmp\<close> over the first \<open>n\<close> bytes: 0 when they agree, otherwise a
  value with the sign of the difference of the first two bytes that differ, read as
  \<^verbatim>\<open>unsigned char\<close>. The difference itself is returned here, as the usual
  implementations do; the standard fixes the sign only.
\<close>

fun memcmp :: "byte list \<Rightarrow> byte list \<Rightarrow> nat \<Rightarrow> int" where
  "memcmp (x # xs) (y # ys) (Suc n) =
     (if x = y then memcmp xs ys n else int (unat x) - int (unat y))"
| "memcmp xs ys n = 0"

text \<open>
  \<^verbatim>\<open>return memcmp(&a, &b, sizeof(a));\<close> in a function returning \<^verbatim>\<open>bool\<close>: the
  \<^verbatim>\<open>int\<close> is converted to \<^verbatim>\<open>bool\<close>, which is \<^verbatim>\<open>true\<close> exactly for a value other
  than 0. \<^verbatim>\<open>sizeof(a)\<close> is the number of bytes of the object representation.
\<close>

definition operator_eq :: "GUID \<Rightarrow> GUID \<Rightarrow> bool" where
  "operator_eq a b = (memcmp (object_repr a) (object_repr b) (length (object_repr a)) \<noteq> 0)"

subsection \<open>\<^verbatim>\<open>IUnknown\<close> (lines 78 to 82)\<close>

record method_decl =
  method_name :: string
  is_virtual :: bool
  is_pure :: bool
  params :: "ctype list"
  returns :: ctype

definition IUnknown :: "method_decl list" where
  "IUnknown =
    [\<lparr>method_name = ''QueryInterface'', is_virtual = True, is_pure = True,
      params = [TName ''REFIID'', TPtr (TPtr TVoid)], returns = TName ''HRESULT''\<rparr>,
     \<lparr>method_name = ''AddRef'', is_virtual = True, is_pure = True,
      params = [], returns = TName ''ULONG''\<rparr>,
     \<lparr>method_name = ''Release'', is_virtual = True, is_pure = True,
      params = [], returns = TName ''ULONG''\<rparr>]"

text \<open>A member function's parameter types and return type, typedef names resolved.\<close>

definition signature :: "method_decl \<Rightarrow> ctype option list \<times> ctype option" where
  "signature d =
     (map (resolve (rev typedefs)) (params d), resolve (rev typedefs) (returns d))"

subsection \<open>The status codes (lines 86 to 88)\<close>

text \<open>The three macros are integer literals; each definition is the literal's value.\<close>

definition S_OK :: int where
  "S_OK = 0"

definition S_FALSE :: int where
  "S_FALSE = 1"

definition E_NOINTERFACE :: int where
  "E_NOINTERFACE = 0x80004002"

text \<open>
  \<^verbatim>\<open>HRESULT\<close> is \<^verbatim>\<open>int\<close>, of 32 bits on each of the targets. Storing an integer in an
  \<^verbatim>\<open>HRESULT\<close> keeps its low 32 bits; \<open>sint\<close> reads the stored value.
\<close>

type_synonym HRESULT = "32 word"

definition as_HRESULT :: "int \<Rightarrow> HRESULT" where
  "as_HRESULT v = word_of_int v"

subsection \<open>The macros (lines 25, 29 to 34 and 86 to 88) and their expansion\<close>

text \<open>
  Which branch is compiled: \<open>Windows\<close> when \<^verbatim>\<open>_WINDOWS\<close> is defined. A macro is
  object-like (a replacement list) or function-like (parameters and a replacement
  list); tokens are their spelling. \<open>macros\<close> lists the \<^verbatim>\<open>#define\<close>s of the header
  itself on each branch, in its order; the macros that \<^verbatim>\<open>objbase.h\<close> brings on the
  Windows branch are not the header's.
\<close>

datatype branch = Windows | NonWindows

type_synonym token = string

datatype macro = ObjectLike "token list" | FunctionLike "string list" "token list"

fun macros :: "branch \<Rightarrow> (string \<times> macro) list" where
  "macros Windows =
    [(''__TYPES_H'', ObjectLike []),
     (''DLLEXPORT'', ObjectLike [''__declspec'', ''('', ''dllexport'', '')''])]"
| "macros NonWindows =
    [(''__TYPES_H'', ObjectLike []),
     (''STDAPICALLTYPE'', ObjectLike []),
     (''STDMETHODCALLTYPE'', ObjectLike []),
     (''STDMETHODIMP'', ObjectLike [''int'']),
     (''STDMETHOD'', FunctionLike [''name''] [''HRESULT'', ''STDMETHODCALLTYPE'', ''name'']),
     (''STDMETHOD_'',
        FunctionLike [''type'', ''name''] [''type'', ''STDMETHODCALLTYPE'', ''name'']),
     (''DLLEXPORT'', ObjectLike []),
     (''S_OK'', ObjectLike [''0'']),
     (''S_FALSE'', ObjectLike [''1'']),
     (''E_NOINTERFACE'', ObjectLike [''0x80004002''])]"

text \<open>
  The arguments of a function-like macro: the tokens after its opening parenthesis up
  to the matching closing one, split at the commas outside nested parentheses. The
  result is the arguments and the tokens after the closing parenthesis; \<open>None\<close> when
  the parenthesis is never closed.
\<close>

fun take_args ::
  "nat \<Rightarrow> token list \<Rightarrow> token list \<Rightarrow> token list list \<Rightarrow>
     (token list list \<times> token list) option" where
  "take_args d [] cur acc = None"
| "take_args d (t # ts) cur acc =
     (if t = '')'' then
        (if d = 0 then Some (acc @ [cur], ts) else take_args (d - 1) ts (cur @ [t]) acc)
      else if t = ''('' then take_args (d + 1) ts (cur @ [t]) acc
      else if t = '','' \<and> d = 0 then take_args d ts [] (acc @ [cur])
      else take_args d ts (cur @ [t]) acc)"

text \<open>A replacement list with each parameter replaced by its argument.\<close>

fun subst :: "(string \<times> token list) list \<Rightarrow> token list \<Rightarrow> token list" where
  "subst env [] = []"
| "subst env (t # ts) = (case map_of env t of None \<Rightarrow> [t] | Some a \<Rightarrow> a) @ subst env ts"

text \<open>
  What the preprocessor does with the token \<open>t\<close> followed by \<open>ts\<close>: it keeps a token
  that is no macro, and a function-like macro's name that no parenthesis follows; it
  replaces a macro by its replacement list and scans the result again, together with
  the tokens that follow; an invocation with the wrong number of arguments is an error.
\<close>

datatype replacement = Keep | Rescan "token list" | Malformed

definition replace :: "(string \<times> macro) list \<Rightarrow> token \<Rightarrow> token list \<Rightarrow> replacement" where
  "replace ms t ts =
     (case map_of ms t of
        None \<Rightarrow> Keep
      | Some (ObjectLike body) \<Rightarrow> Rescan (body @ ts)
      | Some (FunctionLike ps body) \<Rightarrow>
          (case ts of
             [] \<Rightarrow> Keep
           | u # us \<Rightarrow>
               if u = ''('' then
                 (case take_args 0 us [] [] of
                    None \<Rightarrow> Malformed
                  | Some r \<Rightarrow>
                      if length (fst r) = length ps
                      then Rescan (subst (zip ps (fst r)) body @ snd r)
                      else Malformed)
               else Keep))"

text \<open>
  Expansion of a token list. Every step uses one unit of \<open>fuel\<close>, and \<open>None\<close> is an
  error or the fuel used up: a macro that names itself would be replaced again and
  again here, where the preprocessor stops after the first replacement. No macro of the
  header names itself.
\<close>

fun expand :: "nat \<Rightarrow> (string \<times> macro) list \<Rightarrow> token list \<Rightarrow> token list option" where
  "expand fuel ms [] = Some []"
| "expand 0 ms (t # ts) = None"
| "expand (Suc fuel) ms (t # ts) =
     (case replace ms t ts of
        Keep \<Rightarrow> map_option ((#) t) (expand fuel ms ts)
      | Rescan ts' \<Rightarrow> expand fuel ms ts'
      | Malformed \<Rightarrow> None)"

section \<open>Facts about the tables\<close>

lemma rev_typedefs:
  "rev typedefs =
    [(''LPWSTR'', TPtr TChar),
     (''HRESULT'', TInt Signed CInt),
     (''REFIID'', TRef (TName ''IID'')),
     (''REFGUID'', TRef (TName ''GUID'')),
     (''HANDLE'', TPtr TVoid),
     (''HMENU'', TPtr TVoid),
     (''HWND'', TPtr TVoid),
     (''LPIID'', TPtr (TName ''IID'')),
     (''IID'', TName ''GUID''),
     (''GUID'', TStruct ''_GUID''),
     (''OLECHAR'', TName ''WCHAR''),
     (''TCHAR'', TName ''WCHAR''),
     (''WCHAR'', TWchar),
     (''SHORT'', TInt Signed CShort),
     (''SCODE'', TName ''LONG''),
     (''LCID'', TName ''DWORD''),
     (''USHORT'', TInt Unsigned CShort),
     (''VARTYPE'', TInt Unsigned CShort),
     (''DWORD'', TInt Unsigned CLong),
     (''WORD'', TInt Unsigned CShort),
     (''ULONG'', TInt Unsigned CLong),
     (''LONG'', TInt Signed CLong),
     (''BYTE'', TInt Unsigned CChar),
     (''BOOL'', TInt Signed CLong),
     (''INT'', TInt Signed CInt),
     (''UINT'', TInt Unsigned CLong)]"
  by (simp add: typedefs_def)

lemma resolve_name: "resolve (rev typedefs) (TName n) = type_of n"
  by (simp add: type_of_def)

lemma type_of_long_names:
  "type_of ''UINT'' = Some (TInt Unsigned CLong)"
  "type_of ''DWORD'' = Some (TInt Unsigned CLong)"
  "type_of ''ULONG'' = Some (TInt Unsigned CLong)"
  "type_of ''LONG'' = Some (TInt Signed CLong)"
  "type_of ''LCID'' = Some (TInt Unsigned CLong)"
  "type_of ''SCODE'' = Some (TInt Signed CLong)"
  by (simp_all add: type_of_def rev_typedefs)

lemma type_of_int_names:
  "type_of ''INT'' = Some (TInt Signed CInt)"
  "type_of ''HRESULT'' = Some (TInt Signed CInt)"
  by (simp_all add: type_of_def rev_typedefs)

lemma type_of_short_names:
  "type_of ''WORD'' = Some (TInt Unsigned CShort)"
  "type_of ''USHORT'' = Some (TInt Unsigned CShort)"
  "type_of ''VARTYPE'' = Some (TInt Unsigned CShort)"
  "type_of ''SHORT'' = Some (TInt Signed CShort)"
  "type_of ''BYTE'' = Some (TInt Unsigned CChar)"
  by (simp_all add: type_of_def rev_typedefs)

lemma type_of_other_names:
  "type_of ''WCHAR'' = Some TWchar"
  "type_of ''TCHAR'' = Some TWchar"
  "type_of ''OLECHAR'' = Some TWchar"
  "type_of ''GUID'' = Some (TStruct ''_GUID'')"
  "type_of ''IID'' = Some (TStruct ''_GUID'')"
  "type_of ''REFIID'' = Some (TRef (TStruct ''_GUID''))"
  "type_of ''LPWSTR'' = Some (TPtr TChar)"
  by (simp_all add: type_of_def rev_typedefs)

lemmas type_of_names =
  type_of_long_names type_of_int_names type_of_short_names type_of_other_names

lemma GUID_members:
  "GUID_members m =
     Some [(rank_bits m CLong div 8, rank_bits m CLong div 8), (2, 2), (2, 2), (8, 1)]"
  by (simp add: GUID_members_def GUID_fields_def member_size_align_def resolve_name
        type_of_names del: resolve.simps(1))

text \<open>
  The members' names, their order and the sizes of the last three are the same on every
  target; the first member has the size of \<^verbatim>\<open>unsigned long\<close>.
\<close>

lemma GUID_member_names: "map fst GUID_fields = [''Data1'', ''Data2'', ''Data3'', ''Data4'']"
  by (simp add: GUID_fields_def)

lemma GUID_field_sizes_any:
  "GUID_field_sizes m = Some [rank_bits m CLong div 8, 2, 2, 8]"
  by (simp add: GUID_field_sizes_def GUID_members)

text \<open>Where \<^verbatim>\<open>long\<close> has 32 bits the struct has the 16 bytes of a GUID.\<close>

lemma GUID_layout_long32:
  "rank_bits m CLong = 32 \<Longrightarrow>
     GUID_field_sizes m = Some [4, 2, 2, 8]
     \<and> GUID_field_offsets m = Some [0, 4, 6, 8]
     \<and> sizeof_GUID m = Some 16"
  by (simp add: sizeof_GUID_def GUID_field_sizes_def GUID_field_offsets_def GUID_members
        align_up_def)

text \<open>
  \<^verbatim>\<open>INT\<close> has 32 bits on every target; the types declared with \<^verbatim>\<open>long\<close> have the
  width of \<^verbatim>\<open>long\<close>, 32 bits where \<^verbatim>\<open>long\<close> has 32.
\<close>

lemma INT_signed_32: "int_type_of m ''INT'' = Some (Signed, 32)"
  by (simp add: int_type_of_def type_of_names)

lemma long_types_any:
  "int_type_of m ''UINT'' = Some (Unsigned, rank_bits m CLong)
   \<and> int_type_of m ''DWORD'' = Some (Unsigned, rank_bits m CLong)
   \<and> int_type_of m ''ULONG'' = Some (Unsigned, rank_bits m CLong)
   \<and> int_type_of m ''LONG'' = Some (Signed, rank_bits m CLong)"
  by (simp add: int_type_of_def type_of_names)

lemma long_types_32_when_long_32:
  "rank_bits m CLong = 32 \<Longrightarrow>
     int_type_of m ''UINT'' = Some (Unsigned, 32)
     \<and> int_type_of m ''DWORD'' = Some (Unsigned, 32)
     \<and> int_type_of m ''ULONG'' = Some (Unsigned, 32)
     \<and> int_type_of m ''LONG'' = Some (Signed, 32)"
  by (simp add: long_types_any)

section \<open>Facts about the expansion\<close>

text \<open>More fuel never changes a result.\<close>

lemma expand_more_fuel: "expand k ms ts = Some r \<Longrightarrow> expand (Suc k) ms ts = Some r"
proof (induction k ms ts arbitrary: r rule: expand.induct)
  case (1 fuel ms)
  then show ?case by simp
next
  case (2 ms t ts)
  then show ?case by simp
next
  case (3 fuel ms t ts)
  then show ?case
    by (cases "replace ms t ts") auto
qed


text \<open>
  Two member declarations written with the macros: \<^verbatim>\<open>STDMETHOD(Foo)(int x);\<close> becomes
  \<^verbatim>\<open>HRESULT Foo(int x);\<close> and \<^verbatim>\<open>STDMETHOD_(ULONG, AddRef)();\<close> becomes
  \<^verbatim>\<open>ULONG AddRef();\<close>.
\<close>

lemma STDMETHOD_declaration:
  "expand 16 (macros NonWindows)
     [''STDMETHOD'', ''('', ''Foo'', '')'', ''('', ''int'', ''x'', '')'', '';'']
   = Some [''HRESULT'', ''Foo'', ''('', ''int'', ''x'', '')'', '';'']"
  by code_simp

lemma STDMETHOD__declaration:
  "expand 16 (macros NonWindows)
     [''STDMETHOD_'', ''('', ''ULONG'', '','', ''AddRef'', '')'', ''('', '')'', '';'']
   = Some [''ULONG'', ''AddRef'', ''('', '')'', '';'']"
  by code_simp

section \<open>What \<^verbatim>\<open>operator ==\<close> computes\<close>

lemma memcmp_same: "memcmp xs xs n = 0"
proof (induction xs arbitrary: n)
  case Nil
  then show ?case by simp
next
  case (Cons x xs)
  then show ?case by (cases n) simp_all
qed

lemma memcmp_eq_0_iff:
  "length xs = n \<Longrightarrow> length ys = n \<Longrightarrow> (memcmp xs ys n = 0) = (xs = ys)"
proof (induction xs ys n rule: memcmp.induct)
  case (1 x xs y ys n)
  then show ?case by (auto simp: word_uint_eq_iff)
qed simp_all

lemma length_object_repr: "length (object_repr g) = 8 + length (Data4 g)"
  by (simp add: object_repr_def bytes32_def bytes16_def)

text \<open>The object representation of a well-formed GUID has the 16 bytes of the layout.\<close>

lemma length_object_repr_wf:
  "GUID_wf g \<Longrightarrow> Some (length (object_repr g)) = sizeof_GUID ILP32"
  by (simp add: length_object_repr GUID_wf_def sizeof_GUID_def GUID_members align_up_def)

text \<open>Comparing a GUID with itself is \<^verbatim>\<open>false\<close>, whatever the GUID.\<close>

lemma operator_eq_same: "operator_eq a a = False"
  by (simp add: operator_eq_def memcmp_same)

lemma operator_eq_iff_repr:
  "GUID_wf a \<Longrightarrow> GUID_wf b \<Longrightarrow> operator_eq a b = (object_repr a \<noteq> object_repr b)"
  by (simp add: operator_eq_def GUID_wf_def memcmp_eq_0_iff length_object_repr)

text \<open>The bytes determine the members, so the operator is inequality of GUIDs.\<close>

lemma byte_bits:
  fixes a b :: "'a::len word"
  assumes "(ucast (drop_bit k a) :: byte) = ucast (drop_bit k b)"
    and "k \<le> n" and "n < k + 8"
  shows "bit a n = bit b n"
proof -
  from assms(1)
  have "bit (ucast (drop_bit k a) :: byte) (n - k) = bit (ucast (drop_bit k b) :: byte) (n - k)"
    by simp
  moreover from assms(2,3) have "n - k < 8" and "k + (n - k) = n"
    by simp_all
  ultimately show ?thesis
    by (simp add: bit_ucast_iff bit_drop_bit_eq)
qed

lemma bytes16_inj: "bytes16 a = bytes16 b \<Longrightarrow> a = b"
proof (rule bit_word_eqI)
  fix n
  assume e: "bytes16 a = bytes16 b" and n: "n < LENGTH(16)"
  from e have e0: "(ucast (drop_bit 0 a) :: byte) = ucast (drop_bit 0 b)"
    and e1: "(ucast (drop_bit 8 a) :: byte) = ucast (drop_bit 8 b)"
    by (simp_all add: bytes16_def)
  show "bit a n = bit b n"
  proof (cases "n < 8")
    case True
    then show ?thesis by (intro byte_bits [OF e0]) simp_all
  next
    case False
    with n show ?thesis by (intro byte_bits [OF e1]) simp_all
  qed
qed

lemma bytes32_inj: "bytes32 a = bytes32 b \<Longrightarrow> a = b"
proof (rule bit_word_eqI)
  fix n
  assume e: "bytes32 a = bytes32 b" and n: "n < LENGTH(32)"
  from e have e0: "(ucast (drop_bit 0 a) :: byte) = ucast (drop_bit 0 b)"
    and e1: "(ucast (drop_bit 8 a) :: byte) = ucast (drop_bit 8 b)"
    and e2: "(ucast (drop_bit 16 a) :: byte) = ucast (drop_bit 16 b)"
    and e3: "(ucast (drop_bit 24 a) :: byte) = ucast (drop_bit 24 b)"
    by (simp_all add: bytes32_def)
  from n consider "n < 8" | "8 \<le> n" "n < 16" | "16 \<le> n" "n < 24" | "24 \<le> n" "n < 32"
    by fastforce
  then show "bit a n = bit b n"
  proof cases
    case 1
    then show ?thesis by (intro byte_bits [OF e0]) simp_all
  next
    case 2
    then show ?thesis by (intro byte_bits [OF e1]) simp_all
  next
    case 3
    then show ?thesis by (intro byte_bits [OF e2]) simp_all
  next
    case 4
    then show ?thesis by (intro byte_bits [OF e3]) simp_all
  qed
qed

lemma object_repr_inj: "object_repr a = object_repr b \<Longrightarrow> a = b"
proof -
  assume e: "object_repr a = object_repr b"
  have l4: "length (bytes32 w) = 4" and l2: "length (bytes16 v) = 2" for w v
    by (simp_all add: bytes32_def bytes16_def)
  from e have "bytes32 (Data1 a) = bytes32 (Data1 b)
      \<and> bytes16 (Data2 a) = bytes16 (Data2 b)
      \<and> bytes16 (Data3 a) = bytes16 (Data3 b) \<and> Data4 a = Data4 b"
    by (simp add: object_repr_def l4 l2)
  then show "a = b"
    by (cases a, cases b) (auto dest: bytes32_inj bytes16_inj)
qed

lemma operator_eq_is_inequality:
  "GUID_wf a \<Longrightarrow> GUID_wf b \<Longrightarrow> operator_eq a b = (a \<noteq> b)"
  using object_repr_inj [of a b] by (auto simp: operator_eq_iff_repr)

section \<open>The claims\<close>

text \<open>
  C1 says that \<^verbatim>\<open>operator ==\<close> on GUIDs is true exactly when all 16 bytes of the two
  agree. The header returns the result of \<^verbatim>\<open>memcmp\<close> as the \<^verbatim>\<open>bool\<close>, so the operator
  answers the opposite: two GUIDs of the same 16 bytes compare \<^verbatim>\<open>false\<close>, and two that
  differ in their last byte compare \<^verbatim>\<open>true\<close>.
\<close>

theorem operator_eq_identical_guids:
  "operator_eq
     \<lparr>Data1 = 0x01020304, Data2 = 0x0506, Data3 = 0x0708,
      Data4 = [9, 10, 11, 12, 13, 14, 15, 16]\<rparr>
     \<lparr>Data1 = 0x01020304, Data2 = 0x0506, Data3 = 0x0708,
      Data4 = [9, 10, 11, 12, 13, 14, 15, 16]\<rparr>
   = False
   \<and> operator_eq
     \<lparr>Data1 = 0x01020304, Data2 = 0x0506, Data3 = 0x0708,
      Data4 = [9, 10, 11, 12, 13, 14, 15, 16]\<rparr>
     \<lparr>Data1 = 0x01020304, Data2 = 0x0506, Data3 = 0x0708,
      Data4 = [9, 10, 11, 12, 13, 14, 15, 17]\<rparr>
   = True"
  by (simp add: operator_eq_def object_repr_def bytes32_def bytes16_def)

text \<open>
  C2 says that on every target \<^verbatim>\<open>sizeof(GUID)\<close> is 16 and the struct is one 4-byte
  member, two 2-byte members and an 8-byte array, in that order. The struct of the
  header is not that on \<open>LP64\<close>: \<open>Data1\<close> is a \<^verbatim>\<open>DWORD\<close>, declared \<^verbatim>\<open>unsigned long\<close>,
  so the members take 8, 2, 2 and 8 bytes at the offsets 0, 8, 10 and 12, and
  \<^verbatim>\<open>sizeof(GUID)\<close> is 24.
\<close>

theorem GUID_layout_on_LP64:
  "GUID_field_sizes LP64 = Some [8, 2, 2, 8]
   \<and> GUID_field_offsets LP64 = Some [0, 8, 10, 12]
   \<and> sizeof_GUID LP64 = Some 24"
  by (simp add: sizeof_GUID_def GUID_field_sizes_def GUID_field_offsets_def GUID_members
        align_up_def)

text \<open>
  C3: the status codes have the values \<^verbatim>\<open>S_OK\<close> = 0, \<^verbatim>\<open>S_FALSE\<close> = 1 and
  \<^verbatim>\<open>E_NOINTERFACE\<close> = 0x80004002.
\<close>

theorem status_code_values:
  "S_OK = 0 \<and> S_FALSE = 1 \<and> E_NOINTERFACE = 0x80004002"
  by (simp add: S_OK_def S_FALSE_def E_NOINTERFACE_def)

text \<open>
  C4 says that on the non-Windows branch \<^verbatim>\<open>UINT\<close>, \<^verbatim>\<open>DWORD\<close> and \<^verbatim>\<open>ULONG\<close> are
  unsigned and \<^verbatim>\<open>INT\<close> and \<^verbatim>\<open>LONG\<close> signed, each exactly 32 bits wide. The header
  declares four of the five with \<^verbatim>\<open>long\<close>: on \<open>LP64\<close> \<^verbatim>\<open>UINT\<close>, \<^verbatim>\<open>DWORD\<close>, \<^verbatim>\<open>ULONG\<close>
  and \<^verbatim>\<open>LONG\<close> are 64 bits wide; only \<^verbatim>\<open>INT\<close> has its 32 bits.
\<close>

theorem long_types_on_LP64:
  "int_type_of LP64 ''UINT'' = Some (Unsigned, 64)
   \<and> int_type_of LP64 ''DWORD'' = Some (Unsigned, 64)
   \<and> int_type_of LP64 ''ULONG'' = Some (Unsigned, 64)
   \<and> int_type_of LP64 ''LONG'' = Some (Signed, 64)
   \<and> int_type_of LP64 ''INT'' = Some (Signed, 32)"
  by (simp add: int_type_of_def type_of_names)

text \<open>
  C5: on the non-Windows branch, on every target, \<^verbatim>\<open>WORD\<close>, \<^verbatim>\<open>USHORT\<close> and
  \<^verbatim>\<open>VARTYPE\<close> are unsigned integer types of exactly 16 bits, \<^verbatim>\<open>SHORT\<close> is a signed
  one of exactly 16 bits, and \<^verbatim>\<open>BYTE\<close> is an unsigned one of exactly 8 bits.
\<close>

theorem short_and_byte_types:
  "int_type_of m ''WORD'' = Some (Unsigned, 16)
   \<and> int_type_of m ''USHORT'' = Some (Unsigned, 16)
   \<and> int_type_of m ''VARTYPE'' = Some (Unsigned, 16)
   \<and> int_type_of m ''SHORT'' = Some (Signed, 16)
   \<and> int_type_of m ''BYTE'' = Some (Unsigned, 8)"
  by (simp add: int_type_of_def type_of_names)

text \<open>
  C6: \<^verbatim>\<open>HRESULT\<close> is a signed integer type of 32 bits. \<^verbatim>\<open>E_NOINTERFACE\<close> held as an
  \<^verbatim>\<open>HRESULT\<close> has bit 31, the sign bit, set and is negative; \<^verbatim>\<open>S_OK\<close> and \<^verbatim>\<open>S_FALSE\<close>
  held as \<^verbatim>\<open>HRESULT\<close>s are 0 and 1.
\<close>

theorem HRESULT_signed_32:
  "type_of ''HRESULT'' = Some (TInt Signed CInt)
   \<and> int_type_of m ''HRESULT'' = Some (Signed, 32)
   \<and> bit (as_HRESULT E_NOINTERFACE) 31
   \<and> sint (as_HRESULT E_NOINTERFACE) < 0
   \<and> sint (as_HRESULT S_OK) = 0
   \<and> sint (as_HRESULT S_FALSE) = 1"
  by (simp add: int_type_of_def type_of_names as_HRESULT_def
        E_NOINTERFACE_def S_OK_def S_FALSE_def)

text \<open>
  C7: every alias is declared with its target's name and denotes the type its target
  denotes: \<^verbatim>\<open>LCID\<close> that of \<^verbatim>\<open>DWORD\<close>, \<^verbatim>\<open>SCODE\<close> that of \<^verbatim>\<open>LONG\<close>, \<^verbatim>\<open>IID\<close> that of
  \<^verbatim>\<open>GUID\<close>, \<^verbatim>\<open>TCHAR\<close> and \<^verbatim>\<open>OLECHAR\<close> that of \<^verbatim>\<open>WCHAR\<close>.
\<close>

theorem aliases_denote_their_targets:
  "map_of typedefs ''LCID'' = Some (TName ''DWORD'')
   \<and> map_of typedefs ''SCODE'' = Some (TName ''LONG'')
   \<and> map_of typedefs ''IID'' = Some (TName ''GUID'')
   \<and> map_of typedefs ''TCHAR'' = Some (TName ''WCHAR'')
   \<and> map_of typedefs ''OLECHAR'' = Some (TName ''WCHAR'')
   \<and> type_of ''LCID'' = type_of ''DWORD''
   \<and> type_of ''DWORD'' = Some (TInt Unsigned CLong)
   \<and> type_of ''SCODE'' = type_of ''LONG''
   \<and> type_of ''LONG'' = Some (TInt Signed CLong)
   \<and> type_of ''IID'' = type_of ''GUID''
   \<and> type_of ''GUID'' = Some (TStruct ''_GUID'')
   \<and> type_of ''TCHAR'' = type_of ''WCHAR''
   \<and> type_of ''OLECHAR'' = type_of ''WCHAR''
   \<and> type_of ''WCHAR'' = Some TWchar"
  by (simp add: type_of_names) (simp add: typedefs_def)

text \<open>
  C8: \<^verbatim>\<open>IUnknown\<close> declares three member functions and no other, all of them pure
  virtual: \<^verbatim>\<open>QueryInterface\<close> from a \<^verbatim>\<open>REFIID\<close> and a \<^verbatim>\<open>void **\<close> to \<^verbatim>\<open>HRESULT\<close>,
  \<^verbatim>\<open>AddRef\<close> and \<^verbatim>\<open>Release\<close> from no argument to \<^verbatim>\<open>ULONG\<close>.
\<close>

theorem IUnknown_three_pure_virtuals:
  "map method_name IUnknown = [''QueryInterface'', ''AddRef'', ''Release'']
   \<and> list_all (\<lambda>d. is_virtual d \<and> is_pure d) IUnknown
   \<and> map (\<lambda>d. (params d, returns d)) IUnknown =
       [([TName ''REFIID'', TPtr (TPtr TVoid)], TName ''HRESULT''),
        ([], TName ''ULONG''),
        ([], TName ''ULONG'')]
   \<and> map signature IUnknown =
       [([Some (TRef (TStruct ''_GUID'')), Some (TPtr (TPtr TVoid))], Some (TInt Signed CInt)),
        ([], Some (TInt Unsigned CLong)),
        ([], Some (TInt Unsigned CLong))]"
  by (simp add: IUnknown_def signature_def resolve_name type_of_names del: resolve.simps(1))



text \<open>
  C10: on the non-Windows branch \<^verbatim>\<open>LPWSTR\<close> is a pointer to plain \<^verbatim>\<open>char\<close>, one byte of
  8 bits, and not a pointer to the type \<^verbatim>\<open>WCHAR\<close> denotes.
\<close>

theorem LPWSTR_points_to_char:
  "type_of ''LPWSTR'' = Some (TPtr TChar)
   \<and> type_of ''LPWSTR'' \<noteq> map_option TPtr (type_of ''WCHAR'')
   \<and> size_align m TChar = Some (1, 1)
   \<and> rank_bits m CChar = 8"
  by (simp add: type_of_names)

end
